theory Spec2Isabelle
  imports Complex_Main "HOL-Library.Multiset"
begin

section \<open>JSON values and the Python conversions the scripts apply to them\<close>

text \<open>
  Scripts 3 and 4 read a JSON document with \<^verbatim>\<open>json.load\<close> and walk over it with
  \<^verbatim>\<open>enumerate\<close>, \<^verbatim>\<open>map(int, ...)\<close> and \<^verbatim>\<open>set\<close>. The value of a document is one of
  Python's \<^verbatim>\<open>None\<close>, \<^verbatim>\<open>bool\<close>, \<^verbatim>\<open>int\<close>, \<^verbatim>\<open>float\<close>, \<^verbatim>\<open>str\<close>, \<^verbatim>\<open>list\<close>, \<^verbatim>\<open>dict\<close>.
  A finite float is the rational number it denotes; \<^verbatim>\<open>NaN\<close> and the two infinities, which
  \<^verbatim>\<open>json.load\<close> accepts, are kept apart. A dict is the list of its items in insertion
  order, with distinct keys.
\<close>

datatype pyfloat = Finite rat | NaN | Infinity

datatype jv =
    JNull
  | JBool bool
  | JInt int
  | JFloat pyfloat
  | JStr string
  | JArr "jv list"
  | JObj "(string \<times> jv) list"

datatype py_error = ValueError | TypeError | OverflowError | AttributeError

text \<open>
  \<^verbatim>\<open>int(x)\<close>. The reading of a string as a decimal integer is the builtin's own and is
  taken as the parameter \<open>int_of_str\<close> (\<open>None\<close> where the builtin raises ValueError).
  A float is truncated towards zero.
\<close>

definition trunc :: "rat \<Rightarrow> int" where
  "trunc q = (if q < 0 then - \<lfloor>- q\<rfloor> else \<lfloor>q\<rfloor>)"

fun py_int :: "(string \<Rightarrow> int option) \<Rightarrow> jv \<Rightarrow> py_error + int" where
  "py_int int_of_str JNull = Inl TypeError"
| "py_int int_of_str (JBool b) = Inr (if b then 1 else 0)"
| "py_int int_of_str (JInt n) = Inr n"
| "py_int int_of_str (JFloat (Finite q)) = Inr (trunc q)"
| "py_int int_of_str (JFloat NaN) = Inl ValueError"
| "py_int int_of_str (JFloat Infinity) = Inl OverflowError"
| "py_int int_of_str (JStr s) =
     (case int_of_str s of None \<Rightarrow> Inl ValueError | Some n \<Rightarrow> Inr n)"
| "py_int int_of_str (JArr xs) = Inl TypeError"
| "py_int int_of_str (JObj kvs) = Inl TypeError"

text \<open>
  Iterating a value (\<^verbatim>\<open>for x in v\<close>, \<^verbatim>\<open>enumerate(v)\<close>, \<^verbatim>\<open>map(f, v)\<close>): a list gives its
  elements, a string its characters as one-character strings, a dict its keys; anything
  else raises TypeError.
\<close>

fun py_iter :: "jv \<Rightarrow> py_error + jv list" where
  "py_iter (JArr xs) = Inr xs"
| "py_iter (JStr s) = Inr (map (\<lambda>c. JStr [c]) s)"
| "py_iter (JObj kvs) = Inr (map (\<lambda>kv. JStr (fst kv)) kvs)"
| "py_iter v = Inl TypeError"

text \<open>\<^verbatim>\<open>map(int, xs)\<close> consumed in order: the first element that fails decides the error.\<close>

fun map_int :: "(string \<Rightarrow> int option) \<Rightarrow> jv list \<Rightarrow> py_error + int list" where
  "map_int int_of_str [] = Inr []"
| "map_int int_of_str (x # xs) =
     (case py_int int_of_str x of
        Inl e \<Rightarrow> Inl e
      | Inr n \<Rightarrow> (case map_int int_of_str xs of
                   Inl e \<Rightarrow> Inl e
                 | Inr ns \<Rightarrow> Inr (n # ns)))"

text \<open>\<^verbatim>\<open>current_edge = set(map(int, he_list))\<close>\<close>

definition current_edge :: "(string \<Rightarrow> int option) \<Rightarrow> jv \<Rightarrow> py_error + int set" where
  "current_edge int_of_str he_list =
     (case py_iter he_list of
        Inl e \<Rightarrow> Inl e
      | Inr xs \<Rightarrow> (case map_int int_of_str xs of
                   Inl e \<Rightarrow> Inl e
                 | Inr ns \<Rightarrow> Inr (set ns)))"

section \<open>Loading the hyperedges (script 4)\<close>

text \<open>
  The loop of \<^verbatim>\<open>04_perform_hypergraph_clustering.py\<close> (lines 41 to 51); the text of
  \<^verbatim>\<open>03_build_hypergraph_structure.py\<close> (lines 21 to 32) and of \<^verbatim>\<open>hg-test7.py\<close> has the same
  loop:
  \<^verbatim>\<open>
  hyperedges_for_hnx_constructor = []
  for i_he, he_list in enumerate(loaded_hyperedges_as_lists):
      try:
          current_edge = set(map(int, he_list))
          if not current_edge:
              continue
          hyperedges_for_hnx_constructor.append(current_edge)
      except ValueError as ve:
          print(...)
          continue
  \<close>
  A ValueError skips the hyperedge; any other exception leaves the loop and reaches the
  handler of the enclosing \<^verbatim>\<open>try\<close>, which calls \<^verbatim>\<open>exit()\<close>. An empty set is skipped; every
  other set is appended.
\<close>

fun hyperedges_loop :: "(string \<Rightarrow> int option) \<Rightarrow> jv list \<Rightarrow> py_error + int set list" where
  "hyperedges_loop int_of_str [] = Inr []"
| "hyperedges_loop int_of_str (he_list # rest) =
     (case current_edge int_of_str he_list of
        Inl ValueError \<Rightarrow> hyperedges_loop int_of_str rest
      | Inl e \<Rightarrow> Inl e
      | Inr edge \<Rightarrow>
          (if edge = {} then hyperedges_loop int_of_str rest
           else (case hyperedges_loop int_of_str rest of
                   Inl e \<Rightarrow> Inl e
                 | Inr es \<Rightarrow> Inr (edge # es))))"

definition hyperedges_for_hnx_constructor ::
    "(string \<Rightarrow> int option) \<Rightarrow> jv \<Rightarrow> py_error + int set list" where
  "hyperedges_for_hnx_constructor int_of_str loaded =
     (case py_iter loaded of
        Inl e \<Rightarrow> Inl e
      | Inr he_lists \<Rightarrow> hyperedges_loop int_of_str he_lists)"

section \<open>The hypergraph object and the saved structure\<close>

text \<open>
  Modelled from the spec: \<^verbatim>\<open>hnx.Hypergraph\<close> is a class of the HyperNetX library, which the
  scripts import. The model keeps what the scripts read from it: \<^verbatim>\<open>H.nodes\<close>, the union
  of the members of the hyperedges (the spec: "this system derives the node set as the
  union over hyperedges"), and \<^verbatim>\<open>H.incidence_dict\<close>, the members of every hyperedge under
  its identifier, the position of the hyperedge in the list given to the constructor.
  \<^verbatim>\<open>H.edges\<close> lists the identifiers.
\<close>

record hypergraph =
  nodes :: "int set"
  incidence_dict :: "(nat \<times> int set) list"

definition Hypergraph :: "int set list \<Rightarrow> hypergraph" where
  "Hypergraph es = \<lparr>nodes = \<Union> (set es), incidence_dict = zip [0..<length es] es\<rparr>"

definition edges :: "hypergraph \<Rightarrow> nat list" where
  "edges H = map fst (incidence_dict H)"

text \<open>
  The structure that the text of \<^verbatim>\<open>03_build_hypergraph_structure.py\<close> builds from a
  hypergraph (lines 68 to 113), on the branch where \<^verbatim>\<open>H.incidence_dict\<close> exists. The file as
  it stands ends, at line 130, with a stray \<^verbatim>\<open>x\<close> after the closing parenthesis of its last
  statement: Python rejects it with a SyntaxError before any statement runs, so script 3
  itself loads nothing, constructs nothing and saves nothing. The definitions below are
  these statements as functions of the hypergraph \<open>H\<close>; the script as a whole has no
  definition here.
  \<^verbatim>\<open>
  nodes_list = sorted(list(map(int, H.nodes)))
  for edge_uid in list(H.edges):
      edge_members = H.incidence_dict.get(edge_uid)
      if edge_members is not None and hasattr(edge_members, '__iter__'):
          processed_hyperedges_list.append(sorted(list(map(int, edge_members))))
  hypergraph_structure_data = {"nodes": nodes_list, "hyperedges": processed_hyperedges_list}
  \<close>
\<close>

definition nodes_list :: "hypergraph \<Rightarrow> int list" where
  "nodes_list H = sorted_list_of_set (nodes H)"

definition processed_hyperedges_list :: "hypergraph \<Rightarrow> int list list" where
  "processed_hyperedges_list H =
     List.map_filter
       (\<lambda>edge_uid. map_option sorted_list_of_set (map_of (incidence_dict H) edge_uid))
       (edges H)"

definition hypergraph_structure_data :: "hypergraph \<Rightarrow> jv" where
  "hypergraph_structure_data H =
     JObj [(''nodes'', JArr (map JInt (nodes_list H))),
           (''hyperedges'', JArr (map (\<lambda>he. JArr (map JInt he)) (processed_hyperedges_list H)))]"

text \<open>
  A file read by \<^verbatim>\<open>json.load(open(...))\<close>: missing, not JSON, or a value. Both failures end
  script 4 (\<^verbatim>\<open>exit()\<close>).
\<close>

datatype json_file = FileNotFound | JSONDecodeError | Loaded jv

section \<open>Reconstruction and clustering (script 4)\<close>

text \<open>\<^verbatim>\<open>data.get(key, default)\<close>: only a dict has the method.\<close>

fun dict_get :: "jv \<Rightarrow> string \<Rightarrow> jv \<Rightarrow> py_error + jv" where
  "dict_get (JObj kvs) key dflt = Inr (case map_of kvs key of None \<Rightarrow> dflt | Some v \<Rightarrow> v)"
| "dict_get v key dflt = Inl AttributeError"

text \<open>
  Lines 33 to 68 of script 4. Every exception and the empty list of valid hyperedges end
  the script with \<^verbatim>\<open>exit()\<close>, here \<open>None\<close>:
  \<^verbatim>\<open>
  if not hyperedges_for_hnx_constructor:
      print("Error: No valid hyperedges found in the loaded structure file to construct H.")
      exit()
  H = hnx.Hypergraph(hyperedges_for_hnx_constructor)
  \<close>
\<close>

definition script4_H :: "(string \<Rightarrow> int option) \<Rightarrow> json_file \<Rightarrow> hypergraph option" where
  "script4_H int_of_str file =
     (case file of
        FileNotFound \<Rightarrow> None
      | JSONDecodeError \<Rightarrow> None
      | Loaded data \<Rightarrow>
          (case dict_get data ''nodes'' (JArr []) of
             Inl e \<Rightarrow> None
           | Inr nodes_from_file \<Rightarrow>
               (case dict_get data ''hyperedges'' (JArr []) of
                  Inl e \<Rightarrow> None
                | Inr raw_hyperedges \<Rightarrow>
                    (case hyperedges_for_hnx_constructor int_of_str raw_hyperedges of
                       Inl e \<Rightarrow> None
                     | Inr es \<Rightarrow> if es = [] then None else Some (Hypergraph es)))))"

text \<open>
  \<^verbatim>\<open>node_to_cluster[int(node)] = cluster_idx\<close> on a dict kept as the list of its items: an
  existing key keeps its place and takes the new value, a new key goes to the end.
\<close>

fun dict_set :: "int \<Rightarrow> nat \<Rightarrow> (int \<times> nat) list \<Rightarrow> (int \<times> nat) list" where
  "dict_set k v [] = [(k, v)]"
| "dict_set k v ((k', v') # kvs) =
     (if k = k' then (k, v) # kvs else (k', v') # dict_set k v kvs)"

text \<open>
  \<^verbatim>\<open>
  for cluster_idx, node_set in enumerate(partition):
      for node in node_set:
          node_to_cluster[int(node)] = cluster_idx
  \<close>
  A cluster is given as the list of its nodes in the order the loop meets them.
\<close>

fun node_to_cluster :: "nat \<Rightarrow> int list list \<Rightarrow> (int \<times> nat) list \<Rightarrow> (int \<times> nat) list" where
  "node_to_cluster cluster_idx [] d = d"
| "node_to_cluster cluster_idx (node_set # rest) d =
     node_to_cluster (Suc cluster_idx) rest (fold (\<lambda>node. dict_set node cluster_idx) node_set d)"

datatype script4_outcome = Exited4 | NoAssignments | SavedAssignments "(int \<times> nat) list"

text \<open>
  Lines 73 to 118 of script 4. The detector \<^verbatim>\<open>hmod.kumar\<close> belongs to the HyperNetX
  library and is the parameter \<open>kumar\<close>: it returns a partition or raises. The test
  \<^verbatim>\<open>if H\<close> is the truth value of the hypergraph object, false when it has no node.
  The assignments are saved sorted by \<^verbatim>\<open>individual_id\<close>.
\<close>

definition script4 ::
    "(string \<Rightarrow> int option) \<Rightarrow> bool \<Rightarrow> (hypergraph \<Rightarrow> py_error + int list list) \<Rightarrow>
     json_file \<Rightarrow> script4_outcome" where
  "script4 int_of_str HMOD_AVAILABLE kumar file =
     (case script4_H int_of_str file of
        None \<Rightarrow> Exited4
      | Some H \<Rightarrow>
          if nodes H \<noteq> {} \<and> HMOD_AVAILABLE then
            (case kumar H of
               Inl e_kumar \<Rightarrow> NoAssignments
             | Inr partition' \<Rightarrow>
                 if partition' \<noteq> [] then
                   (let d = node_to_cluster 0 partition' []
                    in if d \<noteq> [] then SavedAssignments (sort_key fst d) else NoAssignments)
                 else NoAssignments)
          else NoAssignments)"

text \<open>
  Modelled from the spec: the detector of the spec's failure semantics on a hypergraph
  without hyperedges ("returns each node as its own singleton community"), used to show
  what script 4 does with such a detector.
\<close>

definition singleton_detector :: "hypergraph \<Rightarrow> py_error + int list list" where
  "singleton_detector H = Inr (map (\<lambda>v. [v]) (sorted_list_of_set (nodes H)))"

section \<open>Hyperedge views and their consolidation (script 2, \<^verbatim>\<open>hg-test2.py\<close>)\<close>

text \<open>
  \<^verbatim>\<open>
  def unique_hyperedges(hyperedge_list):
      return list(set(hyperedge_list))
  \<close>
  A hyperedge is a \<^verbatim>\<open>frozenset\<close> of identifiers, here an \<open>int set\<close>: two of them are equal
  when they have the same members. Python lists the distinct elements in an order fixed by
  its hash tables; the model lists them in the order \<open>remdups\<close> leaves, and the theorems
  speak of the elements of the result and of their distinctness only.
\<close>

definition unique_hyperedges :: "'a list \<Rightarrow> 'a list" where
  "unique_hyperedges hyperedge_list = remdups hyperedge_list"

text \<open>
  The consolidation of lines 134 to 183: every view's list is appended to
  \<^verbatim>\<open>all_hyperedges_from_loaded\<close> with \<^verbatim>\<open>extend\<close>, then
  \<^verbatim>\<open>final_hyperedge_list_loaded = unique_hyperedges(all_hyperedges_from_loaded)\<close>.
\<close>

definition all_hyperedges_from_loaded :: "'a list list \<Rightarrow> 'a list" where
  "all_hyperedges_from_loaded views = concat views"

definition final_hyperedge_list_loaded :: "'a list list \<Rightarrow> 'a list" where
  "final_hyperedge_list_loaded views = unique_hyperedges (all_hyperedges_from_loaded views)"

subsection \<open>The genetic distance matrix\<close>

text \<open>
  \<^verbatim>\<open>genetic_dist_df\<close>: the row labels (\<^verbatim>\<open>index\<close>), the column labels (\<^verbatim>\<open>columns\<close>) and the
  value at row position \<open>i\<close> and column position \<open>j\<close> (\<^verbatim>\<open>iat[i, j]\<close>), a distance compared
  as the real number it denotes. \<^verbatim>\<open>df.empty\<close> holds when an axis has length 0.
\<close>

record genetic_dist_df =
  index :: "int list"
  columns :: "int list"
  iat :: "nat \<Rightarrow> nat \<Rightarrow> real"

definition empty_df :: "genetic_dist_df \<Rightarrow> bool" where
  "empty_df df = (index df = [] \<or> columns df = [])"

text \<open>
  \<^verbatim>\<open>
  def get_genetic_distance_threshold_hyperedges(genetic_dist_df, dist_threshold=0.2, min_size=2):
      if genetic_dist_df.empty: print(...); return []
      ids = genetic_dist_df.index.values
      hyperedges = []
      for i, _ in enumerate(ids):
          close_neighbors_mask = genetic_dist_df.iloc[i] < dist_threshold
          close_neighbor_ids = genetic_dist_df.columns[close_neighbors_mask].tolist()
          if len(close_neighbor_ids) >= min_size:
              hyperedges.append(frozenset(close_neighbor_ids))
      return unique_hyperedges(hyperedges)
  \<close>
\<close>

definition close_neighbor_ids :: "genetic_dist_df \<Rightarrow> real \<Rightarrow> nat \<Rightarrow> int list" where
  "close_neighbor_ids df dist_threshold i =
     [columns df ! j. j \<leftarrow> [0..<length (columns df)], iat df i j < dist_threshold]"

definition get_genetic_distance_threshold_hyperedges ::
    "genetic_dist_df \<Rightarrow> real \<Rightarrow> int \<Rightarrow> int set list" where
  "get_genetic_distance_threshold_hyperedges df dist_threshold min_size =
     (if empty_df df then []
      else unique_hyperedges
             [set (close_neighbor_ids df dist_threshold i).
                i \<leftarrow> [0..<length (index df)],
                min_size \<le> int (length (close_neighbor_ids df dist_threshold i))])"

text \<open>
  The policy in the spec's words, to compare with the code: "for each individual, collect
  all others at distance strictly below threshold; emit a hyperedge if the resulting set
  size \<open>\<ge>\<close> minimum size".
\<close>

definition spec_others_below :: "genetic_dist_df \<Rightarrow> real \<Rightarrow> nat \<Rightarrow> int set" where
  "spec_others_below df dist_threshold i =
     set [columns df ! j. j \<leftarrow> [0..<length (columns df)],
            columns df ! j \<noteq> index df ! i \<and> iat df i j < dist_threshold]"

definition spec_distance_threshold_hyperedges ::
    "genetic_dist_df \<Rightarrow> real \<Rightarrow> int \<Rightarrow> int set set" where
  "spec_distance_threshold_hyperedges df dist_threshold min_size =
     set [spec_others_below df dist_threshold i.
            i \<leftarrow> [0..<length (index df)],
            min_size \<le> int (card (spec_others_below df dist_threshold i))]"

text \<open>
  The matrix of the spec's scenario C over the identifiers \<open>ids\<close>: zero on the diagonal,
  0.05 between the individuals at positions \<open>a\<close> and \<open>b\<close>, 0.5 everywhere else.
\<close>

definition scenario_c :: "int list \<Rightarrow> nat \<Rightarrow> nat \<Rightarrow> genetic_dist_df" where
  "scenario_c ids a b =
     \<lparr>index = ids, columns = ids,
      iat = (\<lambda>i j. if i = j then 0
                    else if (i = a \<and> j = b) \<or> (i = b \<and> j = a) then 5 / 100
                    else 5 / 10)\<rparr>"

subsection \<open>The individuals table and the family view\<close>

text \<open>
  \<^verbatim>\<open>individuals_df\<close>: the names of its columns and its rows. \<^verbatim>\<open>family_id\<close> is an integer, -1
  for an individual without a family. The view is called with its default column names,
  \<^verbatim>\<open>'family_id'\<close> and \<^verbatim>\<open>'individual_id'\<close>.
  \<^verbatim>\<open>
  def get_family_hyperedges(individuals_df, family_id_col='family_id',
                            individual_ids_col='individual_id', min_family_size=2):
      if individuals_df.empty or family_id_col not in individuals_df.columns \
         or individual_ids_col not in individuals_df.columns:
          print(...); return []
      hyperedges = []
      valid_families = individuals_df[individuals_df[family_id_col] != -1]
      grouped_by_family = valid_families.groupby(family_id_col)
      for _, group in grouped_by_family:
          if len(group) >= min_family_size:
              hyperedges.append(frozenset(group[individual_ids_col].values))
      return unique_hyperedges(hyperedges)
  \<close>
  \<^verbatim>\<open>groupby\<close> yields one group for every key, in ascending order of the keys, each with the
  rows of that key.
\<close>

record individual =
  individual_id :: int
  true_group :: string
  family_id :: int
  environment :: string

record individuals_df =
  column_names :: "string list"
  rows :: "individual list"

definition empty_individuals :: "individuals_df \<Rightarrow> bool" where
  "empty_individuals df = (rows df = [] \<or> column_names df = [])"

definition valid_families :: "individuals_df \<Rightarrow> individual list" where
  "valid_families df = [r \<leftarrow> rows df. family_id r \<noteq> - 1]"

definition grouped_by_family :: "individual list \<Rightarrow> individual list list" where
  "grouped_by_family rs =
     map (\<lambda>f. [r \<leftarrow> rs. family_id r = f]) (sort (remdups (map family_id rs)))"

definition get_family_hyperedges :: "individuals_df \<Rightarrow> int \<Rightarrow> int set list" where
  "get_family_hyperedges df min_family_size =
     (if empty_individuals df \<or> ''family_id'' \<notin> set (column_names df)
         \<or> ''individual_id'' \<notin> set (column_names df) then []
      else unique_hyperedges
             [set (map individual_id group').
                group' \<leftarrow> grouped_by_family (valid_families df),
                min_family_size \<le> int (length group')])"

text \<open>
  The table of the spec's scenario B, family 0 for \<^verbatim>\<open>fam0\<close> and 1 for \<^verbatim>\<open>fam1\<close>, and the
  same table with two more individuals that have no family.
\<close>

definition person :: "int \<Rightarrow> int \<Rightarrow> individual" where
  "person i f = \<lparr>individual_id = i, true_group = ''G1'', family_id = f, environment = ''Env0''\<rparr>"

definition individuals_columns :: "string list" where
  "individuals_columns = [''individual_id'', ''true_group'', ''family_id'', ''environment'']"

definition scenario_b :: individuals_df where
  "scenario_b =
     \<lparr>column_names = individuals_columns,
      rows = [person 1 0, person 2 0, person 3 0, person 4 1, person 5 1]\<rparr>"

definition scenario_b_unassigned :: individuals_df where
  "scenario_b_unassigned =
     \<lparr>column_names = individuals_columns,
      rows = [person 1 0, person 6 (- 1), person 2 0, person 3 0, person 4 1, person 7 (- 1),
              person 5 1]\<rparr>"

subsection \<open>The traits table and the trait k-nearest-neighbour view\<close>

text \<open>
  \<^verbatim>\<open>traits_df\<close>: the names of its columns, the number of its rows, the value of the column
  \<^verbatim>\<open>individual_id\<close> at every row position, and the value at row position \<open>i\<close> of the \<open>j\<close>-th
  column other than \<^verbatim>\<open>individual_id\<close>. A trait value is the real number the float denotes.
\<close>

record traits_df =
  traits_columns :: "string list"
  n_rows :: nat
  id_at :: "nat \<Rightarrow> int"
  trait_at :: "nat \<Rightarrow> nat \<Rightarrow> real"

definition empty_traits :: "traits_df \<Rightarrow> bool" where
  "empty_traits df = (n_rows df = 0 \<or> traits_columns df = [])"

text \<open>
  Modelled from the spec: \<^verbatim>\<open>StandardScaler().fit_transform\<close> of the scikit-learn library,
  which the script imports. The spec: "optionally standardize each trait dimension to zero
  mean/unit variance across the population". Every column has its mean over the \<open>n\<close> rows
  subtracted and is divided by its standard deviation over the rows; a column whose
  deviation is 0 cannot be brought to unit variance and is centred only.
\<close>

definition column_mean :: "nat \<Rightarrow> (nat \<Rightarrow> nat \<Rightarrow> real) \<Rightarrow> nat \<Rightarrow> real" where
  "column_mean n X j = sum_list (map (\<lambda>i. X i j) [0..<n]) / real n"

definition column_std :: "nat \<Rightarrow> (nat \<Rightarrow> nat \<Rightarrow> real) \<Rightarrow> nat \<Rightarrow> real" where
  "column_std n X j = sqrt (sum_list (map (\<lambda>i. (X i j - column_mean n X j)\<^sup>2) [0..<n]) / real n)"

definition fit_transform :: "nat \<Rightarrow> (nat \<Rightarrow> nat \<Rightarrow> real) \<Rightarrow> nat \<Rightarrow> nat \<Rightarrow> real" where
  "fit_transform n X =
     (\<lambda>i j. if column_std n X j = 0 then X i j - column_mean n X j
            else (X i j - column_mean n X j) / column_std n X j)"

text \<open>
  Modelled from the spec: \<^verbatim>\<open>NearestNeighbors(n_neighbors, metric='euclidean')\<close> of the
  scikit-learn library, fitted on the \<open>n\<close> rows of \<open>X\<close> (\<open>d\<close> columns) and asked with
  \<^verbatim>\<open>kneighbors\<close> for the neighbours of a row among the fitted rows. The spec: "compute
  Euclidean distance", "take the k nearest (excluding none \<emdash> ties broken by stable
  ascending distance order, then by identifier)", "a stable tie-break (ascending distance,
  then ascending identifier)". The library sees row positions and no identifiers: the
  neighbours of a row are the first \<open>n_neighbors\<close> row positions in ascending distance,
  rows at the same distance in ascending position (a stable sort of the positions). The
  spec gives no result when fewer than \<open>n_neighbors\<close> rows were fitted; the library raises
  ValueError there, and so does the model.
\<close>

definition euclidean :: "nat \<Rightarrow> (nat \<Rightarrow> real) \<Rightarrow> (nat \<Rightarrow> real) \<Rightarrow> real" where
  "euclidean d x y = sqrt (sum_list (map (\<lambda>j. (x j - y j)\<^sup>2) [0..<d]))"

definition kneighbors_row :: "nat \<Rightarrow> nat \<Rightarrow> nat \<Rightarrow> (nat \<Rightarrow> nat \<Rightarrow> real) \<Rightarrow> nat \<Rightarrow> nat list" where
  "kneighbors_row n_neighbors n d X i =
     take n_neighbors (sort_key (\<lambda>j. euclidean d (X i) (X j)) [0..<n])"

definition kneighbors ::
    "nat \<Rightarrow> nat \<Rightarrow> nat \<Rightarrow> (nat \<Rightarrow> nat \<Rightarrow> real) \<Rightarrow> py_error + nat list list" where
  "kneighbors n_neighbors n d X =
     (if n < n_neighbors then Inl ValueError
      else Inr (map (kneighbors_row n_neighbors n d X) [0..<n]))"

text \<open>
  The view (lines 39 to 57), called with its default \<^verbatim>\<open>individual_ids_col\<close> and a number \<open>k\<close>
  of neighbours that is not negative:
  \<^verbatim>\<open>
  def get_trait_knn_hyperedges(traits_df, individual_ids_col='individual_id', k=5, scale_traits=True):
      if traits_df.empty or individual_ids_col not in traits_df.columns:
          print(...); return []
      trait_feature_cols = [col for col in traits_df.columns if col != individual_ids_col]
      if not trait_feature_cols:
          print(...); return []
      trait_values = traits_df[trait_feature_cols].values
      ids = traits_df[individual_ids_col].values
      if scale_traits:
          scaler = StandardScaler()
          trait_values = scaler.fit_transform(trait_values)
      nn = NearestNeighbors(n_neighbors=k + 1, algorithm='auto', metric='euclidean')
      nn.fit(trait_values)
      _, indices = nn.kneighbors(trait_values)
      hyperedges = [frozenset(ids[indices[i]]) for i in range(len(indices))]
      return unique_hyperedges(hyperedges)
  \<close>
  The rows the neighbours are asked for are the fitted rows themselves, so a row is among
  the candidates for its own neighbours. An exception of \<^verbatim>\<open>kneighbors\<close> is not caught and
  leaves the view.
\<close>

definition trait_feature_cols :: "traits_df \<Rightarrow> string list" where
  "trait_feature_cols df = [col \<leftarrow> traits_columns df. col \<noteq> ''individual_id'']"

definition trait_values :: "traits_df \<Rightarrow> bool \<Rightarrow> nat \<Rightarrow> nat \<Rightarrow> real" where
  "trait_values df scale_traits =
     (if scale_traits then fit_transform (n_rows df) (trait_at df) else trait_at df)"

definition traits_ids :: "traits_df \<Rightarrow> int list" where
  "traits_ids df = map (id_at df) [0..<n_rows df]"

definition get_trait_knn_hyperedges :: "traits_df \<Rightarrow> nat \<Rightarrow> bool \<Rightarrow> py_error + int set list" where
  "get_trait_knn_hyperedges df k scale_traits =
     (if empty_traits df \<or> ''individual_id'' \<notin> set (traits_columns df) then Inr []
      else if trait_feature_cols df = [] then Inr []
      else (case kneighbors (k + 1) (n_rows df) (length (trait_feature_cols df))
                  (trait_values df scale_traits) of
              Inl e \<Rightarrow> Inl e
            | Inr indices \<Rightarrow>
                Inr (unique_hyperedges
                       [set (map (\<lambda>p. traits_ids df ! p) (indices ! i)).
                          i \<leftarrow> [0..<length indices]])))"




definition three_apart :: traits_df where
  "three_apart =
     \<lparr>traits_columns = [''individual_id'', ''trait_0''], n_rows = 3,
      id_at = (\<lambda>i. int i + 1),
      trait_at = (\<lambda>i j. if i = 0 then 0 else if i = 1 then 1 else 3)\<rparr>"

text \<open>
  A reading of strings for the concrete inputs of this theory, none of which holds a
  string: it reads nothing.
\<close>

definition reads_no_string :: "string \<Rightarrow> int option" where
  "reads_no_string s = None"

section \<open>What the loader passes to the constructor\<close>

lemma current_edge_finite: "current_edge p he = Inr e \<Longrightarrow> finite e"
  by (auto simp: current_edge_def split: sum.splits)

lemma hyperedges_loop_members:
  "hyperedges_loop p hes = Inr es \<Longrightarrow> e \<in> set es \<Longrightarrow> e \<noteq> {} \<and> finite e"
proof (induction hes arbitrary: es)
  case Nil
  then show ?case by simp
next
  case (Cons he rest)
  then show ?case
    by (auto split: sum.splits py_error.splits if_splits dest: current_edge_finite)
qed

lemma constructor_members:
  "hyperedges_for_hnx_constructor p loaded = Inr es \<Longrightarrow> e \<in> set es \<Longrightarrow> e \<noteq> {} \<and> finite e"
  by (auto simp: hyperedges_for_hnx_constructor_def split: sum.splits dest: hyperedges_loop_members)

lemma members_Hypergraph: "snd ` set (incidence_dict (Hypergraph es)) = set es"
proof -
  have e: "map snd (zip [0..<length es] es) = es"
    by (rule map_snd_zip) simp
  have "snd ` set (zip [0..<length es] es) = set (map snd (zip [0..<length es] es))"
    by (simp only: set_map)
  then show ?thesis
    unfolding e by (simp add: Hypergraph_def)
qed

lemma script4_H_cases:
  assumes "script4_H p file = Some H"
  obtains data raw es where "file = Loaded data"
    and "dict_get data ''hyperedges'' (JArr []) = Inr raw"
    and "hyperedges_for_hnx_constructor p raw = Inr es" and "es \<noteq> []" and "H = Hypergraph es"
  using assms by (auto simp: script4_H_def split: json_file.splits sum.splits if_splits)

lemma map_int_JInt: "map_int p (map JInt ns) = Inr ns"
  by (induction ns) auto

lemma current_edge_ints: "current_edge p (JArr (map JInt ns)) = Inr (set ns)"
  by (simp add: current_edge_def map_int_JInt)

lemma hyperedges_loop_ints:
  "hyperedges_loop p (map (\<lambda>ns. JArr (map JInt ns)) nss) = Inr (map set [ns \<leftarrow> nss. ns \<noteq> []])"
  by (induction nss) (auto simp: current_edge_ints)

text \<open>
  Claim C1, as the code has it. The loader skips a hyperedge without members and nothing
  else: no member set that it hands to the constructor is empty, and no hyperedge of a
  hypergraph that script 4 constructs is empty. A hyperedge with exactly one member is not
  rejected: from any list of lists of integers the loader hands over every list that has
  a member, those with one member among them, each as the set of its members.
\<close>

theorem loaded_hyperedges_nonempty:
  "(hyperedges_for_hnx_constructor p loaded = Inr es \<longrightarrow> (\<forall>e\<in>set es. e \<noteq> {})) \<and>
   (script4_H p file = Some H \<longrightarrow> (\<forall>e\<in>snd ` set (incidence_dict H). e \<noteq> {})) \<and>
   hyperedges_for_hnx_constructor p (JArr (map (\<lambda>ns. JArr (map JInt ns)) nss))
     = Inr (map set [ns \<leftarrow> nss. ns \<noteq> []])"
proof (intro conjI impI)
  assume "hyperedges_for_hnx_constructor p loaded = Inr es"
  then show "\<forall>e\<in>set es. e \<noteq> {}"
    using constructor_members by blast
next
  assume "script4_H p file = Some H"
  then obtain raw es where "hyperedges_for_hnx_constructor p raw = Inr es" and "H = Hypergraph es"
    by (auto elim: script4_H_cases)
  then show "\<forall>e\<in>snd ` set (incidence_dict H). e \<noteq> {}"
    using constructor_members by (simp add: members_Hypergraph)
next
  show "hyperedges_for_hnx_constructor p (JArr (map (\<lambda>ns. JArr (map JInt ns)) nss))
     = Inr (map set [ns \<leftarrow> nss. ns \<noteq> []])"
    by (simp add: hyperedges_for_hnx_constructor_def hyperedges_loop_ints)
qed

text \<open>
  A structure with an empty hyperedge, a hyperedge of one member and one of two: script 4
  drops the empty one and keeps the other two.
\<close>

lemma script4_H_example:
  "script4_H reads_no_string
     (Loaded (JObj [(''nodes'', JArr [JInt 1, JInt 2, JInt 5]),
                    (''hyperedges'', JArr [JArr [], JArr [JInt 5], JArr [JInt 1, JInt 2]])]))
     = Some \<lparr>nodes = {5, 1, 2}, incidence_dict = [(0, {5}), (1, {1, 2})]\<rparr>"
  by (simp add: script4_H_def hyperedges_for_hnx_constructor_def current_edge_def Hypergraph_def
        upt_rec insert_commute)

text \<open>Claim C1, the theorem at that structure and its one-member hyperedge.\<close>

theorem loaded_hyperedges_nonempty_witness:
  "script4_H reads_no_string
     (Loaded (JObj [(''nodes'', JArr [JInt 1, JInt 2, JInt 5]),
                    (''hyperedges'', JArr [JArr [], JArr [JInt 5], JArr [JInt 1, JInt 2]])]))
     = Some \<lparr>nodes = {5, 1, 2}, incidence_dict = [(0, {5}), (1, {1, 2})]\<rparr> \<and>
   {5} \<in> snd ` set (incidence_dict \<lparr>nodes = {5, 1, 2}, incidence_dict = [(0, {5}), (1, {1, 2})]\<rparr>) \<and>
   {5 :: int} \<noteq> {}"
proof -
  note ex = script4_H_example
  have m: "{5} \<in> snd ` set (incidence_dict
      \<lparr>nodes = {5 :: int, 1, 2}, incidence_dict = [(0, {5}), (1, {1, 2})]\<rparr>)"
    by simp
  have "{5 :: int} \<noteq> {}"
    by (rule loaded_hyperedges_nonempty [THEN conjunct2, THEN conjunct1, THEN mp, OF ex,
          THEN bspec, OF m])
  with ex m show ?thesis by (intro conjI)
qed

text \<open>
  Claim C1 as the spec states it fails: from the structure whose only hyperedge is
  \<^verbatim>\<open>[5]\<close>, script 4 constructs a hypergraph whose only hyperedge has the single member 5.
\<close>

theorem singleton_hyperedge_admitted:
  "script4_H reads_no_string
     (Loaded (JObj [(''nodes'', JArr [JInt 5]), (''hyperedges'', JArr [JArr [JInt 5]])]))
     = Some \<lparr>nodes = {5}, incidence_dict = [(0, {5})]\<rparr> \<and> card {5 :: int} = 1"
  by (simp add: script4_H_def hyperedges_for_hnx_constructor_def current_edge_def Hypergraph_def)

section \<open>The saved structure and its reconstruction\<close>

lemma current_edge_saved:
  "finite e \<Longrightarrow> current_edge p (JArr (map JInt (sorted_list_of_set e))) = Inr e"
  by (simp add: current_edge_ints)

lemma hyperedges_loop_saved:
  "\<forall>e\<in>set es. finite e \<and> e \<noteq> {} \<Longrightarrow>
   hyperedges_loop p (map (\<lambda>e. JArr (map JInt (sorted_list_of_set e))) es) = Inr es"
  by (induction es) (auto simp: current_edge_saved)

lemma map_filter_all_Some:
  "\<forall>x\<in>set xs. f x = Some (g x) \<Longrightarrow> List.map_filter f xs = map g xs"
  by (induction xs) (auto simp: List.map_filter_simps)

lemma processed_hyperedges_list_Hypergraph:
  "processed_hyperedges_list (Hypergraph es) = map sorted_list_of_set es"
proof -
  have mo: "map_of (zip [0..<length es] es) i = Some (es ! i)" if "i < length es" for i
    using that map_of_zip_nth [of "[0..<length es]" es i] by simp
  have "\<forall>uid\<in>set [0..<length es].
      map_option sorted_list_of_set (map_of (zip [0..<length es] es) uid)
        = Some (sorted_list_of_set (es ! uid))"
  proof
    fix uid assume "uid \<in> set [0..<length es]"
    then have "uid < length es" by simp
    then show "map_option sorted_list_of_set (map_of (zip [0..<length es] es) uid)
        = Some (sorted_list_of_set (es ! uid))"
      unfolding mo [OF \<open>uid < length es\<close>] by simp
  qed
  then have "List.map_filter
       (\<lambda>uid. map_option sorted_list_of_set (map_of (zip [0..<length es] es) uid))
       [0..<length es] = map (\<lambda>i. sorted_list_of_set (es ! i)) [0..<length es]"
    by (rule map_filter_all_Some)
  also have "\<dots> = map sorted_list_of_set (map ((!) es) [0..<length es])"
    by (simp add: comp_def)
  also have "\<dots> = map sorted_list_of_set es"
    by (simp only: map_nth)
  finally show ?thesis
    by (simp add: processed_hyperedges_list_def Hypergraph_def edges_def)
qed

lemma script4_H_saved:
  assumes "es \<noteq> []" and "\<forall>e\<in>set es. finite e \<and> e \<noteq> {}"
  shows "script4_H p (Loaded (hypergraph_structure_data (Hypergraph es))) = Some (Hypergraph es)"
  using assms
  by (simp add: script4_H_def hypergraph_structure_data_def hyperedges_for_hnx_constructor_def
      processed_hyperedges_list_Hypergraph hyperedges_loop_saved comp_def)

lemma nodes_list_Hypergraph:
  assumes "\<forall>e\<in>set es. finite e"
  shows "set (nodes_list (Hypergraph es)) = nodes (Hypergraph es)"
proof -
  from assms have "finite (\<Union> (set es))" by blast
  then show ?thesis by (simp add: nodes_list_def Hypergraph_def)
qed

text \<open>
  Claim C2. Take any hypergraph \<open>H\<close> that the constructor builds from at least one
  hyperedge, every hyperedge finite and with a member; these are the hypergraphs the
  scripts construct, and every hypergraph that script 4 constructs is one of them. The
  saved structure of \<open>H\<close> has the nodes of \<open>H\<close> as a sorted list and every hyperedge as a
  sorted list of its members. Script 4, reading that structure, reconstructs a hypergraph
  with the same node set and the same set of hyperedge member sets, each as many times
  as in \<open>H\<close>.
\<close>

theorem serialization_roundtrip:
  "(es \<noteq> [] \<and> (\<forall>e\<in>set es. finite e \<and> e \<noteq> {}) \<longrightarrow>
      sorted (nodes_list (Hypergraph es)) \<and>
      set (nodes_list (Hypergraph es)) = nodes (Hypergraph es) \<and>
      (\<forall>he\<in>set (processed_hyperedges_list (Hypergraph es)). sorted he) \<and>
      (\<exists>H'. script4_H p (Loaded (hypergraph_structure_data (Hypergraph es))) = Some H' \<and>
            nodes H' = nodes (Hypergraph es) \<and>
            snd ` set (incidence_dict H') = snd ` set (incidence_dict (Hypergraph es)) \<and>
            mset (map snd (incidence_dict H')) = mset (map snd (incidence_dict (Hypergraph es))))) \<and>
   (script4_H p file = Some H \<longrightarrow>
      (\<exists>H'. script4_H p' (Loaded (hypergraph_structure_data H)) = Some H' \<and>
            nodes H' = nodes H \<and>
            snd ` set (incidence_dict H') = snd ` set (incidence_dict H) \<and>
            mset (map snd (incidence_dict H')) = mset (map snd (incidence_dict H))))"
proof (intro conjI impI)
  assume a: "es \<noteq> [] \<and> (\<forall>e\<in>set es. finite e \<and> e \<noteq> {})"
  then have "script4_H p (Loaded (hypergraph_structure_data (Hypergraph es))) = Some (Hypergraph es)"
    by (intro script4_H_saved) simp_all
  then show "\<exists>H'. script4_H p (Loaded (hypergraph_structure_data (Hypergraph es))) = Some H' \<and>
            nodes H' = nodes (Hypergraph es) \<and>
            snd ` set (incidence_dict H') = snd ` set (incidence_dict (Hypergraph es)) \<and>
            mset (map snd (incidence_dict H')) = mset (map snd (incidence_dict (Hypergraph es)))"
    by simp
  show "sorted (nodes_list (Hypergraph es))"
    by (simp add: nodes_list_def)
  show "set (nodes_list (Hypergraph es)) = nodes (Hypergraph es)"
    using a by (intro nodes_list_Hypergraph) blast
  show "\<forall>he\<in>set (processed_hyperedges_list (Hypergraph es)). sorted he"
    unfolding processed_hyperedges_list_Hypergraph by auto
next
  assume "script4_H p file = Some H"
  then obtain raw es where es: "hyperedges_for_hnx_constructor p raw = Inr es" "es \<noteq> []"
    and H: "H = Hypergraph es"
    by (auto elim: script4_H_cases)
  from es(1) have "\<forall>e\<in>set es. finite e \<and> e \<noteq> {}"
    using constructor_members by blast
  with es(2) have "script4_H p' (Loaded (hypergraph_structure_data H)) = Some H"
    unfolding H by (rule script4_H_saved)
  then show "\<exists>H'. script4_H p' (Loaded (hypergraph_structure_data H)) = Some H' \<and>
            nodes H' = nodes H \<and>
            snd ` set (incidence_dict H') = snd ` set (incidence_dict H) \<and>
            mset (map snd (incidence_dict H')) = mset (map snd (incidence_dict H))"
    by simp
qed

text \<open>
  Claim C2, the theorem at the hypergraph with the hyperedges \<open>{1, 3}\<close> and \<open>{2, 3}\<close>:
  script 4 reconstructs a hypergraph with its nodes and member sets from the saved
  structure.
\<close>

theorem serialization_roundtrip_witness:
  "[{1, 3}, {2, 3 :: int}] \<noteq> [] \<and> finite {1, 3 :: int} \<and> {1, 3 :: int} \<noteq> {} \<and>
   finite {2, 3 :: int} \<and> {2, 3 :: int} \<noteq> {} \<and>
   (\<exists>H'. script4_H reads_no_string
           (Loaded (hypergraph_structure_data (Hypergraph [{1, 3}, {2, 3}]))) = Some H' \<and>
         nodes H' = {1, 2, 3} \<and> snd ` set (incidence_dict H') = {{1, 3}, {2, 3}})"
proof -
  let ?H = "Hypergraph [{1, 3}, {2, 3 :: int}]"
  have a: "[{1, 3}, {2, 3 :: int}] \<noteq> [] \<and> (\<forall>e\<in>set [{1, 3}, {2, 3 :: int}]. finite e \<and> e \<noteq> {})"
    by simp
  note rt = serialization_roundtrip [of "[{1, 3}, {2, 3}]" reads_no_string, THEN conjunct1,
      THEN mp, OF a, THEN conjunct2, THEN conjunct2, THEN conjunct2]
  from rt obtain H' where l: "script4_H reads_no_string (Loaded (hypergraph_structure_data ?H)) = Some H'"
    and n: "nodes H' = nodes ?H"
    and m: "snd ` set (incidence_dict H') = snd ` set (incidence_dict ?H)"
    by (elim exE conjE)
  from n have n': "nodes H' = {1, 2, 3}" by (auto simp: Hypergraph_def)
  from m have m': "snd ` set (incidence_dict H') = {{1, 3}, {2, 3}}"
    by (simp add: members_Hypergraph)
  from l n' m' have "\<exists>H'. script4_H reads_no_string (Loaded (hypergraph_structure_data ?H)) = Some H' \<and>
         nodes H' = {1, 2, 3} \<and> snd ` set (incidence_dict H') = {{1, 3}, {2, 3}}"
    by (intro exI conjI)
  then show ?thesis by simp
qed

section \<open>Script 4 without hyperedges\<close>

lemma script4_H_has_edges:
  assumes "script4_H p file = Some H"
  shows "incidence_dict H \<noteq> [] \<and> nodes H \<noteq> {}"
proof -
  from assms obtain data raw es where es: "hyperedges_for_hnx_constructor p raw = Inr es" "es \<noteq> []"
    and H: "H = Hypergraph es"
    by (rule script4_H_cases)
  from es(2) obtain e where e: "e \<in> set es" by (cases es) auto
  with es(1) have "e \<noteq> {}" using constructor_members by blast
  with e have "\<Union> (set es) \<noteq> {}" by blast
  with es(2) show ?thesis by (simp add: H Hypergraph_def)
qed

text \<open>
  Claim C3, as the code has it. When the loaded structure holds no valid hyperedge,
  script 4 reports an error and exits before it constructs the hypergraph, whatever the
  detector would do: no partition is produced. Every hypergraph the script constructs has
  a hyperedge and a node, and the outcome of the script depends on the detector only through what it
  does on hypergraphs that have one: the detector is never handed a hypergraph without
  hyperedges.
\<close>

theorem script4_exits_without_hyperedges:
  "(dict_get data ''hyperedges'' (JArr []) = Inr raw \<longrightarrow>
      hyperedges_for_hnx_constructor p raw = Inr [] \<longrightarrow>
      script4 p available kumar (Loaded data) = Exited4) \<and>
   (script4_H p file = Some H \<longrightarrow> incidence_dict H \<noteq> [] \<and> nodes H \<noteq> {}) \<and>
   ((\<forall>H. incidence_dict H \<noteq> [] \<longrightarrow> kumar H = kumar' H) \<longrightarrow>
      script4 p available kumar file = script4 p available kumar' file)"
proof (intro conjI impI)
  assume "dict_get data ''hyperedges'' (JArr []) = Inr raw"
    and "hyperedges_for_hnx_constructor p raw = Inr []"
  then have "script4_H p (Loaded data) = None"
    by (cases data) (simp_all add: script4_H_def)
  then show "script4 p available kumar (Loaded data) = Exited4"
    by (simp add: script4_def)
next
  assume "script4_H p file = Some H"
  then show "incidence_dict H \<noteq> []" and "nodes H \<noteq> {}"
    by (simp_all add: script4_H_has_edges)
next
  assume same: "\<forall>H. incidence_dict H \<noteq> [] \<longrightarrow> kumar H = kumar' H"
  show "script4 p available kumar file = script4 p available kumar' file"
  proof (cases "script4_H p file")
    case None
    then show ?thesis by (simp add: script4_def)
  next
    case (Some H)
    then have "incidence_dict H \<noteq> []" by (simp add: script4_H_has_edges)
    with same have "kumar H = kumar' H" by blast
    with Some show ?thesis by (simp add: script4_def)
  qed
qed

text \<open>
  Claim C3, the theorem at the structure with the node 7 and the one hyperedge \<^verbatim>\<open>[]\<close>, which
  the loader skips: the script exits.
\<close>

theorem script4_exits_without_hyperedges_witness:
  "dict_get (JObj [(''nodes'', JArr [JInt 7]), (''hyperedges'', JArr [JArr []])])
       ''hyperedges'' (JArr []) = Inr (JArr [JArr []]) \<and>
   hyperedges_for_hnx_constructor reads_no_string (JArr [JArr []]) = Inr [] \<and>
   script4 reads_no_string True singleton_detector
     (Loaded (JObj [(''nodes'', JArr [JInt 7]), (''hyperedges'', JArr [JArr []])])) = Exited4"
proof -
  have g: "dict_get (JObj [(''nodes'', JArr [JInt 7]), (''hyperedges'', JArr [JArr []])])
       ''hyperedges'' (JArr []) = Inr (JArr [JArr []])"
    by simp
  have l: "hyperedges_for_hnx_constructor reads_no_string (JArr [JArr []]) = Inr []"
    by (simp add: hyperedges_for_hnx_constructor_def current_edge_def)
  have "script4 reads_no_string True singleton_detector
     (Loaded (JObj [(''nodes'', JArr [JInt 7]), (''hyperedges'', JArr [JArr []])])) = Exited4"
    by (rule script4_exits_without_hyperedges [THEN conjunct1, THEN mp, OF g, THEN mp, OF l])
  with g l show ?thesis by (intro conjI)
qed

text \<open>
  Claim C3 as the spec states it fails: on the structure with the nodes 1 and 2 and no
  hyperedge, script 4 exits without a partition, even with a detector that would return
  every node of a hypergraph as its own community.
\<close>

theorem no_hyperedges_no_partition:
  "script4 reads_no_string True singleton_detector
     (Loaded (JObj [(''nodes'', JArr [JInt 1, JInt 2]), (''hyperedges'', JArr [])])) = Exited4"
  by (simp add: script4_def script4_H_def hyperedges_for_hnx_constructor_def)


section \<open>The genetic-distance threshold view\<close>

lemma comprehension_filter:
  "concat (map (\<lambda>x. if P x then [f x] else []) xs) = map f (filter P xs)"
  by (induction xs) auto

lemma set_close_neighbor_ids:
  "set (close_neighbor_ids df t i) = {columns df ! j | j. j < length (columns df) \<and> iat df i j < t}"
  by (auto simp: close_neighbor_ids_def comprehension_filter)

lemma length_close_neighbor_ids:
  "length (close_neighbor_ids df t i) = card {j. j < length (columns df) \<and> iat df i j < t}"
proof -
  have "length (close_neighbor_ids df t i) = length (filter (\<lambda>j. iat df i j < t) [0..<length (columns df)])"
    by (simp add: close_neighbor_ids_def comprehension_filter)
  also have "\<dots> = card ({j. iat df i j < t} \<inter> set [0..<length (columns df)])"
    by (rule distinct_length_filter) simp
  also have "{j. iat df i j < t} \<inter> set [0..<length (columns df)] = {j. j < length (columns df) \<and> iat df i j < t}"
    by auto
  finally show ?thesis .
qed

lemma distinct_close_neighbor_ids:
  "distinct (columns df) \<Longrightarrow> distinct (close_neighbor_ids df t i)"
  by (auto simp: close_neighbor_ids_def comprehension_filter distinct_map inj_on_def nth_eq_iff_index_eq)

lemma set_threshold_view:
  "\<not> empty_df df \<Longrightarrow>
   set (get_genetic_distance_threshold_hyperedges df t m) =
     {set (close_neighbor_ids df t i) | i.
        i < length (index df) \<and> m \<le> int (length (close_neighbor_ids df t i))}"
  by (auto simp: get_genetic_distance_threshold_hyperedges_def unique_hyperedges_def)

lemma distinct_threshold_view: "distinct (get_genetic_distance_threshold_hyperedges df t m)"
  by (simp add: get_genetic_distance_threshold_hyperedges_def unique_hyperedges_def)

lemma singleton_list: "distinct xs \<Longrightarrow> set xs = {x} \<Longrightarrow> xs = [x]"
  by (cases xs) (auto simp: subset_singleton_iff)

lemma scenario_c_between:
  assumes "distinct ids" and "a < length ids" and "b < length ids" and "a \<noteq> b"
    and t: "5 / 100 < t" "t \<le> 5 / 10"
  shows "get_genetic_distance_threshold_hyperedges (scenario_c ids a b) t 2 = [{ids ! a, ids ! b}]"
proof -
  let ?df = "scenario_c ids a b"
  let ?n = "length ids"
  have ne: "\<not> empty_df ?df" using assms(2) by (auto simp: empty_df_def scenario_c_def)
  have below: "iat ?df i j < t \<longleftrightarrow> j = i \<or> (i = a \<and> j = b) \<or> (i = b \<and> j = a)" for i j
    using t by (auto simp: scenario_c_def)
  have len: "length (close_neighbor_ids ?df t i) = (if i = a \<or> i = b then 2 else 1)"
    if "i < ?n" for i
  proof -
    have "{j. j < ?n \<and> iat ?df i j < t} = (if i = a then {a, b} else if i = b then {a, b} else {i})"
      using that assms(2,3) by (auto simp: below)
    then have "card {j. j < ?n \<and> iat ?df i j < t} = (if i = a \<or> i = b then 2 else 1)"
      using assms(4) by auto
    then show ?thesis
      by (simp add: length_close_neighbor_ids scenario_c_def)
  qed
  have mem: "set (close_neighbor_ids ?df t i) = {ids ! a, ids ! b}" if "i = a \<or> i = b" for i
    unfolding set_close_neighbor_ids using that assms(2,3)
    by (auto simp: below) (auto simp: scenario_c_def)
  have "set (get_genetic_distance_threshold_hyperedges ?df t 2) = {{ids ! a, ids ! b}}"
    unfolding set_threshold_view [OF ne]
  proof (intro equalityI subsetI)
    fix h assume "h \<in> {set (close_neighbor_ids ?df t i) | i.
        i < length (index ?df) \<and> 2 \<le> int (length (close_neighbor_ids ?df t i))}"
    then obtain i where i: "i < ?n" "h = set (close_neighbor_ids ?df t i)"
      "2 \<le> int (length (close_neighbor_ids ?df t i))"
      by (auto simp: scenario_c_def)
    from i(1,3) have "i = a \<or> i = b" by (auto simp: len split: if_splits)
    with i(2) show "h \<in> {{ids ! a, ids ! b}}" by (simp add: mem)
  next
    fix h assume "h \<in> {{ids ! a, ids ! b}}"
    then have "h = set (close_neighbor_ids ?df t a)" by (simp add: mem)
    moreover have "2 \<le> int (length (close_neighbor_ids ?df t a))"
      using assms(2) by (simp add: len)
    moreover have "a < length (index ?df)" using assms(2) by (simp add: scenario_c_def)
    ultimately show "h \<in> {set (close_neighbor_ids ?df t i) | i.
        i < length (index ?df) \<and> 2 \<le> int (length (close_neighbor_ids ?df t i))}"
      by blast
  qed
  with distinct_threshold_view
  show "get_genetic_distance_threshold_hyperedges ?df t 2 = [{ids ! a, ids ! b}]"
    by (rule singleton_list)
qed

text \<open>
  Claim C4. On the matrix of scenario C over any distinct identifiers, with the close pair
  at any two different positions \<open>a\<close> and \<open>b\<close>, the view with threshold 0.1 and minimum
  size 2 returns exactly one hyperedge; it holds the two individuals of the pair and has
  size 2.
\<close>

theorem scenario_c_one_hyperedge:
  assumes "distinct ids" and "a < length ids" and "b < length ids" and "a \<noteq> b"
  shows "get_genetic_distance_threshold_hyperedges (scenario_c ids a b) (1 / 10) 2
           = [{ids ! a, ids ! b}]
         \<and> card {ids ! a, ids ! b} = 2"
proof -
  have "ids ! a \<noteq> ids ! b"
    using assms by (simp add: nth_eq_iff_index_eq)
  moreover have "get_genetic_distance_threshold_hyperedges (scenario_c ids a b) (1 / 10) 2
           = [{ids ! a, ids ! b}]"
    using assms by (intro scenario_c_between) simp_all
  ultimately show ?thesis by simp
qed

text \<open>
  Claim C4, the theorem at four individuals 10, 20, 30, 40 with the close pair 20 and 40.
\<close>

theorem scenario_c_one_hyperedge_witness:
  "distinct [10, 20, 30, 40 :: int] \<and> (1 :: nat) < length [10, 20, 30, 40 :: int] \<and>
   (3 :: nat) < length [10, 20, 30, 40 :: int] \<and> (1 :: nat) \<noteq> 3 \<and>
   get_genetic_distance_threshold_hyperedges (scenario_c [10, 20, 30, 40] 1 3) (1 / 10) 2
     = [{20, 40}]"
proof -
  have d: "distinct [10, 20, 30, 40 :: int]" by simp
  have a: "(1 :: nat) < length [10, 20, 30, 40 :: int]" by simp
  have b: "(3 :: nat) < length [10, 20, 30, 40 :: int]" by simp
  have n: "(1 :: nat) \<noteq> 3" by simp
  from scenario_c_one_hyperedge [OF d a b n]
  have "get_genetic_distance_threshold_hyperedges (scenario_c [10, 20, 30, 40] 1 3) (1 / 10) 2
     = [{20, 40}]"
    by simp
  with d a b n show ?thesis by (intro conjI)
qed

text \<open>
  Claim C5, as the code has it. For every row of a non-empty matrix with distinct column
  labels, the view collects the labels of all the columns whose entry in that row is
  strictly below the threshold; no column is left out, so the individual of the row is
  collected too when its own entry is below the threshold. The hyperedges the view
  returns are exactly the collected sets whose size is at least the minimum size.
\<close>

theorem threshold_policy:
  assumes "\<not> empty_df df" and "distinct (columns df)"
  shows "set (get_genetic_distance_threshold_hyperedges df t m) =
     {h. \<exists>i<length (index df).
           h = {columns df ! j | j. j < length (columns df) \<and> iat df i j < t} \<and> m \<le> int (card h)}"
proof -
  have "int (length (close_neighbor_ids df t i)) = int (card (set (close_neighbor_ids df t i)))" for i
    using distinct_close_neighbor_ids [OF assms(2)] by (simp add: distinct_card)
  then show ?thesis
    unfolding set_threshold_view [OF assms(1)]
    by (auto simp: set_close_neighbor_ids)
qed

text \<open>Two individuals 1 and 2 at distance 0.05.\<close>

lemma scenario_c_pair: "get_genetic_distance_threshold_hyperedges (scenario_c [1, 2] 0 1) (1 / 10) 2 = [{1, 2}]"
  by (simp add: get_genetic_distance_threshold_hyperedges_def close_neighbor_ids_def scenario_c_def
      empty_df_def unique_hyperedges_def upt_rec)

text \<open>
  Claim C5, the theorem at two individuals 1 and 2 at distance 0.05, threshold 0.1 and
  minimum size 2: the set collected for the first row is \<open>{1, 2}\<close>.
\<close>

theorem threshold_policy_witness:
  "\<not> empty_df (scenario_c [1, 2] 0 1) \<and> distinct (columns (scenario_c [1, 2] 0 1)) \<and>
   {h. \<exists>i<length (index (scenario_c [1, 2] 0 1)).
         h = {columns (scenario_c [1, 2] 0 1) ! j | j.
                j < length (columns (scenario_c [1, 2] 0 1)) \<and> iat (scenario_c [1, 2] 0 1) i j < 1 / 10}
         \<and> 2 \<le> int (card h)} = {{1, 2}}"
proof -
  have e: "\<not> empty_df (scenario_c [1, 2] 0 1)" by (simp add: empty_df_def scenario_c_def)
  have d: "distinct (columns (scenario_c [1, 2] 0 1))" by (simp add: scenario_c_def)
  have "{h. \<exists>i<length (index (scenario_c [1, 2] 0 1)).
         h = {columns (scenario_c [1, 2] 0 1) ! j | j.
                j < length (columns (scenario_c [1, 2] 0 1)) \<and> iat (scenario_c [1, 2] 0 1) i j < 1 / 10}
         \<and> 2 \<le> int (card h)}
      = set (get_genetic_distance_threshold_hyperedges (scenario_c [1, 2] 0 1) (1 / 10) 2)"
    by (rule threshold_policy [OF e d, symmetric])
  also have "\<dots> = {{1, 2}}"
    unfolding scenario_c_pair by simp
  finally show ?thesis
    using e d by (intro conjI)
qed

text \<open>
  Claim C5 as the spec states it fails. With two individuals 1 and 2 at distance 0.05,
  threshold 0.1 and minimum size 2, each individual has one other individual below the
  threshold, so the policy of the spec emits nothing; the code emits the hyperedge
  \<open>{1, 2}\<close>, which holds the individual of the row.
\<close>

theorem threshold_collects_focal:
  "get_genetic_distance_threshold_hyperedges (scenario_c [1, 2] 0 1) (1 / 10) 2 = [{1, 2}]
   \<and> spec_others_below (scenario_c [1, 2] 0 1) (1 / 10) 0 = {2}
   \<and> spec_others_below (scenario_c [1, 2] 0 1) (1 / 10) 1 = {1}
   \<and> spec_distance_threshold_hyperedges (scenario_c [1, 2] 0 1) (1 / 10) 2 = {}"
  by (simp add: get_genetic_distance_threshold_hyperedges_def spec_distance_threshold_hyperedges_def
      spec_others_below_def close_neighbor_ids_def scenario_c_def empty_df_def unique_hyperedges_def
      upt_rec)

text \<open>
  Claim C10. On a matrix whose columns carry the labels of its rows, with a zero diagonal
  and a strictly positive threshold, the set collected for a row contains the individual
  of that row; so every hyperedge the view returns is the set collected for some row, it
  contains the individual of that row, and the collected labels, that individual among
  them, number at least the minimum size.
\<close>

theorem threshold_hyperedge_contains_focal:
  assumes "columns df = index df" and "\<forall>i<length (index df). iat df i i = 0" and "0 < t"
  shows "(\<forall>i<length (index df). index df ! i \<in> set (close_neighbor_ids df t i)) \<and>
         (\<forall>h\<in>set (get_genetic_distance_threshold_hyperedges df t m).
            \<exists>i<length (index df). h = set (close_neighbor_ids df t i) \<and> index df ! i \<in> h \<and>
              m \<le> int (length (close_neighbor_ids df t i)))"
proof (intro conjI allI impI ballI)
  fix i assume "i < length (index df)"
  with assms show "index df ! i \<in> set (close_neighbor_ids df t i)"
    by (auto simp: set_close_neighbor_ids)
next
  fix h assume h: "h \<in> set (get_genetic_distance_threshold_hyperedges df t m)"
  then have ne: "\<not> empty_df df"
    by (auto simp: get_genetic_distance_threshold_hyperedges_def split: if_splits)
  from h obtain i where i: "i < length (index df)" "h = set (close_neighbor_ids df t i)"
      "m \<le> int (length (close_neighbor_ids df t i))"
    unfolding set_threshold_view [OF ne] by blast
  from i(1) assms have "index df ! i \<in> set (close_neighbor_ids df t i)"
    by (auto simp: set_close_neighbor_ids)
  with i show "\<exists>i<length (index df). h = set (close_neighbor_ids df t i) \<and> index df ! i \<in> h \<and>
              m \<le> int (length (close_neighbor_ids df t i))"
    by blast
qed

lemma scenario_c_three:
  "get_genetic_distance_threshold_hyperedges (scenario_c [10, 20, 30] 0 2) (1 / 10) 2 = [{10, 30}]"
  by (simp add: get_genetic_distance_threshold_hyperedges_def close_neighbor_ids_def scenario_c_def
      empty_df_def unique_hyperedges_def upt_rec)

text \<open>
  Claim C10, the theorem at three individuals 10, 20, 30 with the close pair 10 and 30 and
  the hyperedge \<open>{10, 30}\<close>.
\<close>

theorem threshold_hyperedge_contains_focal_witness:
  "columns (scenario_c [10, 20, 30] 0 2) = index (scenario_c [10, 20, 30] 0 2) \<and>
   iat (scenario_c [10, 20, 30] 0 2) 0 0 = 0 \<and> iat (scenario_c [10, 20, 30] 0 2) 1 1 = 0 \<and>
   iat (scenario_c [10, 20, 30] 0 2) 2 2 = 0 \<and> (0 :: real) < 1 / 10 \<and>
   {10, 30} \<in> set (get_genetic_distance_threshold_hyperedges (scenario_c [10, 20, 30] 0 2) (1 / 10) 2) \<and>
   (\<exists>i<length (index (scenario_c [10, 20, 30] 0 2)).
      {10, 30} = set (close_neighbor_ids (scenario_c [10, 20, 30] 0 2) (1 / 10) i) \<and>
      index (scenario_c [10, 20, 30] 0 2) ! i \<in> {10, 30})"
proof -
  let ?df = "scenario_c [10, 20, 30] 0 2"
  have c: "columns ?df = index ?df" by (simp add: scenario_c_def)
  have z: "\<forall>i<length (index ?df). iat ?df i i = 0" by (simp add: scenario_c_def)
  have t: "(0 :: real) < 1 / 10" by simp
  have h: "{10, 30} \<in> set (get_genetic_distance_threshold_hyperedges ?df (1 / 10) 2)"
    by (simp add: scenario_c_three)
  from threshold_hyperedge_contains_focal [OF c z t, of 2, THEN conjunct2, THEN bspec, OF h]
  have "\<exists>i<length (index ?df). {10, 30} = set (close_neighbor_ids ?df (1 / 10) i) \<and>
      index ?df ! i \<in> {10, 30}"
    by blast
  moreover have "iat ?df 0 0 = 0" and "iat ?df 1 1 = 0" and "iat ?df 2 2 = 0"
    by (simp_all add: scenario_c_def)
  ultimately show ?thesis using c t h by (intro conjI)
qed

section \<open>The family view\<close>

lemma family_hyperedge_origin:
  assumes "h \<in> set (get_family_hyperedges df m)"
  shows "\<exists>f. f \<noteq> - 1 \<and> h = individual_id ` {r \<in> set (rows df). family_id r = f} \<and>
             m \<le> int (length [r \<leftarrow> rows df. family_id r = f])"
proof -
  from assms obtain g where g: "g \<in> set (grouped_by_family (valid_families df))"
      "m \<le> int (length g)" "h = set (map individual_id g)"
    by (auto simp: get_family_hyperedges_def unique_hyperedges_def comprehension_filter
        split: if_splits)
  from g(1) obtain f where f: "f \<in> family_id ` set (valid_families df)"
      "g = [r \<leftarrow> valid_families df. family_id r = f]"
    by (auto simp: grouped_by_family_def)
  from f(1) have f1: "f \<noteq> - 1" by (auto simp: valid_families_def)
  with f(2) have "g = [r \<leftarrow> rows df. family_id r = f]"
    by (auto simp: valid_families_def intro: filter_cong)
  with g f1 show ?thesis by auto
qed

lemma scenario_b_eval: "get_family_hyperedges scenario_b 2 = [{1, 2, 3}, {4, 5}]"
  by (auto simp: get_family_hyperedges_def scenario_b_def individuals_columns_def person_def
      empty_individuals_def valid_families_def grouped_by_family_def unique_hyperedges_def)

lemma scenario_b_unassigned_eval:
  "get_family_hyperedges scenario_b_unassigned 2 = [{1, 2, 3}, {4, 5}]"
  by (auto simp: get_family_hyperedges_def scenario_b_unassigned_def individuals_columns_def
      person_def empty_individuals_def valid_families_def grouped_by_family_def
      unique_hyperedges_def)

text \<open>
  Claim C8. On the table of scenario B with minimum size 2 the family view returns the two
  hyperedges \<open>{1, 2, 3}\<close> and \<open>{4, 5}\<close> and no other. On every table, a hyperedge of the
  view is the set of the individuals of one family whose identifier is not -1; so, the
  identifiers of the individuals being distinct, an individual whose family is -1 is in no
  hyperedge of the view, however many individuals share the -1.
\<close>

theorem family_view_scenario_b:
  "set (get_family_hyperedges scenario_b 2) = {{1, 2, 3}, {4, 5}} \<and>
   distinct (get_family_hyperedges scenario_b 2) \<and>
   (\<forall>h\<in>set (get_family_hyperedges df m).
      \<exists>f. f \<noteq> - 1 \<and> h = individual_id ` {r \<in> set (rows df). family_id r = f}) \<and>
   (distinct (map individual_id (rows df)) \<longrightarrow>
      (\<forall>r\<in>set (rows df). family_id r = - 1 \<longrightarrow>
         (\<forall>h\<in>set (get_family_hyperedges df m). individual_id r \<notin> h)))"
proof (intro conjI ballI impI)
  show "set (get_family_hyperedges scenario_b 2) = {{1, 2, 3}, {4, 5}}"
    by (simp add: scenario_b_eval)
  show "distinct (get_family_hyperedges scenario_b 2)"
    by (simp add: get_family_hyperedges_def unique_hyperedges_def)
next
  fix h assume "h \<in> set (get_family_hyperedges df m)"
  then show "\<exists>f. f \<noteq> - 1 \<and> h = individual_id ` {r \<in> set (rows df). family_id r = f}"
    using family_hyperedge_origin by blast
next
  fix r h
  assume d: "distinct (map individual_id (rows df))"
    and r: "r \<in> set (rows df)" "family_id r = - 1"
    and h: "h \<in> set (get_family_hyperedges df m)"
  from h obtain f where f: "f \<noteq> - 1" "h = individual_id ` {r \<in> set (rows df). family_id r = f}"
    using family_hyperedge_origin by blast
  show "individual_id r \<notin> h"
  proof
    assume "individual_id r \<in> h"
    then obtain r' where r': "r' \<in> set (rows df)" "family_id r' = f"
        "individual_id r' = individual_id r"
      using f(2) by auto
    from d have "inj_on individual_id (set (rows df))" by (simp add: distinct_map)
    with r(1) r'(1,3) have "r' = r" by (auto dest: inj_onD)
    with r(2) r'(2) f(1) show False by simp
  qed
qed

text \<open>
  Claim C8, the theorem at the table of scenario B with the individuals 6 and 7 added,
  both of family -1: individual 6 is not in the hyperedge \<open>{1, 2, 3}\<close> of the view.
\<close>

theorem family_view_scenario_b_witness:
  "distinct (map individual_id (rows scenario_b_unassigned)) \<and>
   person 6 (- 1) \<in> set (rows scenario_b_unassigned) \<and>
   family_id (person 6 (- 1)) = - 1 \<and>
   {1, 2, 3} \<in> set (get_family_hyperedges scenario_b_unassigned 2) \<and>
   individual_id (person 6 (- 1)) \<notin> {1, 2, 3}"
proof -
  have d: "distinct (map individual_id (rows scenario_b_unassigned))"
    by (simp add: scenario_b_unassigned_def person_def)
  have r: "person 6 (- 1) \<in> set (rows scenario_b_unassigned)"
    by (simp add: scenario_b_unassigned_def)
  have f: "family_id (person 6 (- 1)) = - 1" by (simp add: person_def)
  have h: "{1, 2, 3} \<in> set (get_family_hyperedges scenario_b_unassigned 2)"
    by (simp add: scenario_b_unassigned_eval)
  have "individual_id (person 6 (- 1)) \<notin> {1, 2, 3}"
    by (rule family_view_scenario_b [of scenario_b_unassigned 2, THEN conjunct2, THEN conjunct2,
          THEN conjunct2, THEN mp, OF d, THEN bspec, OF r, THEN mp, OF f, THEN bspec, OF h])
  with d r f h show ?thesis by (intro conjI)
qed

section \<open>Consolidation\<close>

lemma set_final_hyperedge_list_loaded:
  "set (final_hyperedge_list_loaded views) = \<Union> (set ` set views)"
  by (simp add: final_hyperedge_list_loaded_def all_hyperedges_from_loaded_def
      unique_hyperedges_def)

text \<open>
  Claim C6. Removing duplicates keeps every hyperedge once: the result has the elements of
  the input and no element twice. Consolidating a consolidated collection gives the same
  hyperedges, for one list and for the lists of the views; and a permutation of the
  hyperedges, or of the views, leaves the hyperedges of the result unchanged.
\<close>

theorem consolidation_idempotent_order_independent:
  "set (unique_hyperedges X) = set X \<and> distinct (unique_hyperedges X) \<and>
   set (unique_hyperedges (unique_hyperedges X)) = set (unique_hyperedges X) \<and>
   set (final_hyperedge_list_loaded [final_hyperedge_list_loaded views]) =
     set (final_hyperedge_list_loaded views) \<and>
   distinct (final_hyperedge_list_loaded views) \<and>
   (mset X' = mset X \<longrightarrow> set (unique_hyperedges X') = set (unique_hyperedges X)) \<and>
   (mset views' = mset views \<longrightarrow>
      set (final_hyperedge_list_loaded views') = set (final_hyperedge_list_loaded views))"
proof (intro conjI impI)
  show "set (unique_hyperedges X) = set X" and "distinct (unique_hyperedges X)"
    and "set (unique_hyperedges (unique_hyperedges X)) = set (unique_hyperedges X)"
    by (simp_all add: unique_hyperedges_def)
  show "set (final_hyperedge_list_loaded [final_hyperedge_list_loaded views]) =
     set (final_hyperedge_list_loaded views)"
    by (simp add: set_final_hyperedge_list_loaded)
  show "distinct (final_hyperedge_list_loaded views)"
    by (simp add: final_hyperedge_list_loaded_def unique_hyperedges_def)
next
  assume "mset X' = mset X"
  then have "set X' = set X" by (rule mset_eq_setD)
  then show "set (unique_hyperedges X') = set (unique_hyperedges X)"
    by (simp add: unique_hyperedges_def)
next
  assume "mset views' = mset views"
  then have "set views' = set views" by (rule mset_eq_setD)
  then show "set (final_hyperedge_list_loaded views') = set (final_hyperedge_list_loaded views)"
    by (simp add: set_final_hyperedge_list_loaded)
qed

text \<open>
  Claim C6, the theorem at two views, \<open>[{4, 5}, {1, 2}]\<close> and \<open>[{1, 2}, {2, 3}]\<close>, taken in
  both orders.
\<close>

theorem consolidation_idempotent_order_independent_witness:
  "mset [[{4, 5}, {1, 2 :: int}], [{1, 2}, {2, 3}]] = mset [[{1, 2}, {2, 3}], [{4, 5}, {1, 2}]] \<and>
   set (final_hyperedge_list_loaded [[{4, 5}, {1, 2 :: int}], [{1, 2}, {2, 3}]]) =
     set (final_hyperedge_list_loaded [[{1, 2}, {2, 3}], [{4, 5}, {1, 2}]])"
proof -
  have m: "mset [[{4, 5}, {1, 2 :: int}], [{1, 2}, {2, 3}]]
      = mset [[{1, 2}, {2, 3}], [{4, 5}, {1, 2}]]"
    by (simp add: add.commute)
  have "set (final_hyperedge_list_loaded [[{4, 5}, {1, 2 :: int}], [{1, 2}, {2, 3}]]) =
     set (final_hyperedge_list_loaded [[{1, 2}, {2, 3}], [{4, 5}, {1, 2}]])"
    by (rule consolidation_idempotent_order_independent
          [where views' = "[[{4, 5}, {1, 2 :: int}], [{1, 2}, {2, 3}]]"
             and views = "[[{1, 2}, {2, 3}], [{4, 5}, {1, 2}]]",
           THEN conjunct2, THEN conjunct2, THEN conjunct2, THEN conjunct2, THEN conjunct2,
           THEN conjunct2, THEN mp, OF m])
  with m show ?thesis by (intro conjI)
qed


section \<open>The trait k-nearest-neighbour view\<close>

text \<open>With fewer rows than \<open>k + 1\<close> the search raises and the view returns nothing.\<close>

lemma three_apart_too_few: "get_trait_knn_hyperedges three_apart 3 False = Inl ValueError"
  by (simp add: get_trait_knn_hyperedges_def three_apart_def empty_traits_def trait_feature_cols_def
      kneighbors_def)























end
